theory Spec2Isabelle
  imports Main
begin

section \<open>Values shared by the pipeline\<close>

text \<open>
  The exceptions of the Python code that matter here.  \<open>ReindexError\<close> stands for the
  error pandas raises when it has to realign a frame whose column labels repeat, and
  \<open>DriverError\<close> for the failure of \<open>geopandas.read_file\<close> on a missing boundary file.
\<close>

datatype error =
    FileNotFoundError
  | IndexError
  | ValueError
  | KeyError
  | TypeError
  | OverflowError
  | ReindexError
  | DriverError

text \<open>
  Python strings are modelled as \<open>string\<close>; a character outside ASCII is the sequence of
  its UTF-8 bytes, which keeps equality of strings, the only operation the code applies
  to such characters.
\<close>

subsection \<open>Decimal rendering of integers\<close>

definition digit :: "nat \<Rightarrow> char" where
  "digit n = ''0123456789'' ! n"

fun str_nat :: "nat \<Rightarrow> string" where
  "str_nat n = (if n < 10 then [digit n] else str_nat (n div 10) @ [digit (n mod 10)])"

declare str_nat.simps [simp del]

definition str_int :: "int \<Rightarrow> string" where
  \<comment> \<open>Python's \<open>str\<close> on an int, as an f-string field renders it.\<close>
  "str_int i = (if i < 0 then CHR ''-'' # str_nat (nat (- i)) else str_nat (nat i))"

definition zfill :: "nat \<Rightarrow> string \<Rightarrow> string" where
  \<comment> \<open>Zero padding on the left, as \<open>%d\<close>, \<open>%m\<close> and \<open>%Y\<close> of \<open>strftime\<close> do.\<close>
  "zfill w s = replicate (w - length s) (CHR ''0'') @ s"

subsection \<open>Calendar dates\<close>

datatype date = Date (dyear: int) (dmonth: int) (dday: int)

definition is_leap :: "int \<Rightarrow> bool" where
  "is_leap y = (y mod 4 = 0 \<and> (y mod 100 \<noteq> 0 \<or> y mod 400 = 0))"

definition days_in_month :: "int \<Rightarrow> int \<Rightarrow> int" where
  "days_in_month y m =
     (if m = 2 then (if is_leap y then 29 else 28)
      else if m = 4 \<or> m = 6 \<or> m = 9 \<or> m = 11 then 30 else 31)"

definition valid_date :: "date \<Rightarrow> bool" where
  "valid_date d =
     (1 \<le> dyear d \<and> dyear d \<le> 9999 \<and> 1 \<le> dmonth d \<and> dmonth d \<le> 12 \<and>
      1 \<le> dday d \<and> dday d \<le> days_in_month (dyear d) (dmonth d))"

definition datetime_date :: "int \<times> int \<times> int \<Rightarrow> error + date" where
  \<comment> \<open>\<open>datetime.date(t[0], t[1], t[2])\<close>: a ValueError outside the calendar.\<close>
  "datetime_date t =
     (case t of (y, m, d) \<Rightarrow>
        if valid_date (Date y m d) then Inr (Date y m d) else Inl ValueError)"

definition date_le :: "date \<Rightarrow> date \<Rightarrow> bool" where
  "date_le a b =
     (dyear a < dyear b \<or>
      (dyear a = dyear b \<and> (dmonth a < dmonth b \<or> (dmonth a = dmonth b \<and> dday a \<le> dday b))))"

definition add_day :: "date \<Rightarrow> error + date" where
  \<comment> \<open>\<open>d + datetime.timedelta(days=1)\<close>: an OverflowError after 9999-12-31.\<close>
  "add_day d =
     (if dday d < days_in_month (dyear d) (dmonth d) then Inr (Date (dyear d) (dmonth d) (dday d + 1))
      else if dmonth d < 12 then Inr (Date (dyear d) (dmonth d + 1) 1)
      else if dyear d < 9999 then Inr (Date (dyear d + 1) 1 1)
      else Inl OverflowError)"

definition month_name :: "int \<Rightarrow> string" where
  \<comment> \<open>\<open>%B\<close> in the C locale.\<close>
  "month_name m =
     (if m = 1 then ''January'' else if m = 2 then ''February'' else if m = 3 then ''March''
      else if m = 4 then ''April'' else if m = 5 then ''May'' else if m = 6 then ''June''
      else if m = 7 then ''July'' else if m = 8 then ''August'' else if m = 9 then ''September''
      else if m = 10 then ''October'' else if m = 11 then ''November'' else ''December'')"

definition fmt_d :: "date \<Rightarrow> string" where
  "fmt_d d = zfill 2 (str_int (dday d))"

definition fmt_m :: "date \<Rightarrow> string" where
  "fmt_m d = zfill 2 (str_int (dmonth d))"

definition fmt_Y :: "date \<Rightarrow> string" where
  "fmt_Y d = zfill 4 (str_int (dyear d))"

definition fmt_B :: "date \<Rightarrow> string" where
  "fmt_B d = month_name (dmonth d)"

subsection \<open>File names\<close>

definition file_name :: "date \<Rightarrow> string" where
  \<comment> \<open>\<open>f'{start_date.strftime("%B-%d-%Y")}-Cases.pdf'\<close> in \<open>download_data\<close>.\<close>
  "file_name d = fmt_B d @ ''-'' @ fmt_d d @ ''-'' @ fmt_Y d @ ''-Cases.pdf''"

definition saved_path :: "string \<Rightarrow> date \<Rightarrow> string" where
  \<comment> \<open>\<open>f'{directory}/{filename}'\<close>, the path \<open>download_data\<close> opens for writing.\<close>
  "saved_path directory d = directory @ ''/'' @ file_name d"

definition downloaded_file :: "string \<Rightarrow> string \<Rightarrow> int \<Rightarrow> string" where
  \<comment> \<open>The path \<open>batch_process\<close> builds for a month name and a day.\<close>
  "downloaded_file data_dir month day =
     (if day < 10 then data_dir @ ''/'' @ month @ ''-0'' @ str_int day @ ''-2021-Cases.pdf''
      else data_dir @ ''/'' @ month @ ''-'' @ str_int day @ ''-2021-Cases.pdf'')"

section \<open>Fetcher: \<open>download_data\<close>\<close>

text \<open>
  The effects of the fetcher are recorded in order: the directory it creates, the files it
  writes and the lines it prints.  The web server is a function from the requested URL to
  a response, given by its status code and body.
\<close>

datatype effect = MakeDirs string | WriteFile string string | Print string

definition str_response :: "nat \<times> string \<Rightarrow> string" where
  \<comment> \<open>\<open>str(response)\<close> of a \<open>requests.Response\<close>.\<close>
  "str_response response = ''<Response ['' @ str_nat (fst response) @ '']>''"

function iter_content :: "nat \<Rightarrow> string \<Rightarrow> string list" where
  "iter_content chunk_size body =
     (if chunk_size = 0 \<or> body = [] then []
      else take chunk_size body # iter_content chunk_size (drop chunk_size body))"
  by pat_completeness auto
termination
  by (relation "measure (\<lambda>(n, body). length body)") auto

declare iter_content.simps [simp del]

definition request_url :: "date \<Rightarrow> string" where
  \<comment> \<open>The year in the path is the literal 2021; only the month and the file name vary.\<close>
  "request_url start_date =
     ''https://quezoncity.gov.ph/wp-content/uploads/2021/'' @ fmt_m start_date @ ''/''
       @ file_name start_date"

definition no_data_message :: "date \<Rightarrow> string" where
  "no_data_message start_date =
     ''No data extracted on '' @ fmt_B start_date @ '' '' @ fmt_d start_date @ '', ''
       @ fmt_Y start_date"

definition fetch_one :: "(string \<Rightarrow> nat \<times> string) \<Rightarrow> string \<Rightarrow> date \<Rightarrow> effect" where
  \<comment> \<open>The body of the \<open>while\<close> loop for one date.\<close>
  "fetch_one requests_get directory start_date =
     (let filename = file_name start_date;
          url = request_url start_date;
          response = requests_get url;
          responseString = str_response response
      in if responseString = ''<Response [200]>''
         then WriteFile (directory @ ''/'' @ filename) (concat (iter_content 100 (snd response)))
         else Print (no_data_message start_date))"

function download_loop ::
  "(string \<Rightarrow> nat \<times> string) \<Rightarrow> string \<Rightarrow> date \<Rightarrow> date \<Rightarrow> effect list \<times> error option" where
  "download_loop requests_get directory start_date end_date =
     (if date_le start_date end_date
      then (case add_day start_date of
              Inl e \<Rightarrow> ([fetch_one requests_get directory start_date], Some e)
            | Inr next_date \<Rightarrow>
                (case download_loop requests_get directory next_date end_date of
                   (effects, r) \<Rightarrow> (fetch_one requests_get directory start_date # effects, r)))
      else ([], None))"
  by pat_completeness auto
termination
proof (relation "measures [\<lambda>(g, dir, s, e). nat (dyear e + 1 - dyear s),
                           \<lambda>(g, dir, s, e). nat (12 - dmonth s),
                           \<lambda>(g, dir, s, e). nat (31 - dday s)]", goal_cases)
  case 1
  show ?case by simp
next
  case (2 requests_get directory start_date end_date next_date)
  have dim: "days_in_month (dyear start_date) (dmonth start_date) \<le> 31"
    by (simp add: days_in_month_def)
  from 2 dim show ?case
    by (auto simp: add_day_def date_le_def split: if_splits)
qed

declare download_loop.simps [simp del]

definition download_data ::
  "(string \<Rightarrow> nat \<times> string) \<Rightarrow> int \<times> int \<times> int \<Rightarrow> int \<times> int \<times> int \<Rightarrow> string
     \<Rightarrow> effect list \<times> error option" where
  "download_data requests_get start_dt end_dt directory =
     (case datetime_date start_dt of
        Inl e \<Rightarrow> ([MakeDirs directory], Some e)
      | Inr start_date \<Rightarrow>
          (case datetime_date end_dt of
             Inl e \<Rightarrow> ([MakeDirs directory], Some e)
           | Inr end_date \<Rightarrow>
               (case download_loop requests_get directory start_date end_date of
                  (effects, r) \<Rightarrow> (MakeDirs directory # effects, r))))"

section \<open>Data frames\<close>

text \<open>
  A cell of a pandas frame is missing (\<open>NaN\<close>), a number or a string.  A frame is its list
  of column labels and its rows in order, each row holding one cell per column.  Labels
  are cells too: \<open>extract_table\<close> takes them from a data row.
\<close>

datatype cell = NaN | Num int | Str string

record dataframe =
  columns :: "cell list"
  rows :: "cell list list"

definition label_positions :: "cell list \<Rightarrow> string \<Rightarrow> nat list" where
  "label_positions cols name = filter (\<lambda>i. cols ! i = Str name) [0..<length cols]"

definition cell_at :: "cell list \<Rightarrow> nat \<Rightarrow> cell" where
  "cell_at r i = (if i < length r then r ! i else NaN)"

definition get_column :: "dataframe \<Rightarrow> nat \<Rightarrow> cell list" where
  "get_column df i = map (\<lambda>r. cell_at r i) (rows df)"

definition set_column :: "dataframe \<Rightarrow> nat \<Rightarrow> cell list \<Rightarrow> dataframe" where
  "set_column df i values = df\<lparr>rows := map (\<lambda>(r, v). r[i := v]) (zip (rows df) values)\<rparr>"

section \<open>Table extractor: \<open>extract_table\<close>\<close>

text \<open>
  \<open>tabula.read_pdf\<close> is modelled by the tables it finds in each file that exists; a path
  with no file raises FileNotFoundError.
\<close>

definition read_pdf :: "(string \<Rightarrow> dataframe list option) \<Rightarrow> string \<Rightarrow> error + dataframe list" where
  "read_pdf pdfs file = (case pdfs file of None \<Rightarrow> Inl FileNotFoundError | Some tables \<Rightarrow> Inr tables)"

definition promote_header :: "dataframe \<Rightarrow> error + dataframe" where
  \<comment> \<open>Loop body: \<open>df.columns = df.iloc[0, :].values\<close>, then \<open>df.iloc[1:-1, :]\<close>.\<close>
  "promote_header table =
     (case rows table of
        [] \<Rightarrow> Inl IndexError
      | r # rs \<Rightarrow> Inr \<lparr>columns = r, rows = butlast rs\<rparr>)"

fun promote_all :: "dataframe list \<Rightarrow> error + dataframe list" where
  "promote_all [] = Inr []"
| "promote_all (table # tables) =
     (case promote_header table of
        Inl e \<Rightarrow> Inl e
      | Inr df \<Rightarrow> (case promote_all tables of Inl e \<Rightarrow> Inl e | Inr results \<Rightarrow> Inr (df # results)))"

fun union_labels :: "cell list \<Rightarrow> cell list \<Rightarrow> cell list" where
  "union_labels acc [] = acc"
| "union_labels acc (c # cs) = union_labels (if c \<in> set acc then acc else acc @ [c]) cs"

definition reindex :: "cell list \<Rightarrow> cell list \<Rightarrow> cell list \<Rightarrow> cell list" where
  \<comment> \<open>A row with labels \<open>old\<close>, laid out under the labels \<open>new\<close>; absent labels are missing.\<close>
  "reindex old new r = map (\<lambda>c. case map_of (zip old r) c of None \<Rightarrow> NaN | Some v \<Rightarrow> v) new"

definition pd_concat :: "dataframe list \<Rightarrow> error + dataframe" where
  \<comment> \<open>\<open>pd.concat\<close> along the rows: frames with the same labels are stacked as they are;
      otherwise each is laid out under the union of the labels, which pandas refuses
      for a frame whose labels repeat.\<close>
  "pd_concat dfs =
     (case dfs of
        [] \<Rightarrow> Inl ValueError
      | df # rest \<Rightarrow>
          if \<forall>d \<in> set rest. columns d = columns df
          then Inr \<lparr>columns = columns df, rows = concat (map rows dfs)\<rparr>
          else if \<exists>d \<in> set dfs. \<not> distinct (columns d) then Inl ReindexError
          else (let cols = union_labels [] (concat (map columns dfs))
                in Inr \<lparr>columns = cols,
                        rows = concat (map (\<lambda>d. map (reindex (columns d) cols) (rows d)) dfs)\<rparr>))"

definition extract_table :: "(string \<Rightarrow> dataframe list option) \<Rightarrow> string \<Rightarrow> error + dataframe" where
  "extract_table pdfs file =
     (case read_pdf pdfs file of
        Inl e \<Rightarrow> Inl e
      | Inr tables \<Rightarrow>
          (case promote_all tables of
             Inl e \<Rightarrow> Inl e
           | Inr results \<Rightarrow> pd_concat results))"

section \<open>Preprocessor: \<open>preprocess\<close>\<close>

definition hy :: string where
  \<comment> \<open>U+2010 HYPHEN, which the PDF text uses, in UTF-8.\<close>
  "hy = [CHR 0xE2, CHR 0x80, CHR 0x90]"

definition nt :: string where
  \<comment> \<open>U+00F1, n with tilde, in UTF-8.\<close>
  "nt = [CHR 0xC3, CHR 0xB1]"

definition rep :: "(string \<times> string) list" where
  "rep =
    [(''Bagong Pag'' @ hy @ ''Asa'', ''Bagong Pag-Asa''),
     (''Don_a Imelda'', ''Do'' @ nt @ ''a Imelda''),
     (''Don_a Josefa'', ''Do'' @ nt @ ''a Josefa''),
     (''Duyan'' @ hy @ ''Duyan'', ''Duyan-Duyan''),
     (''Pag'' @ hy @ ''Ibig Sa Nayon'', ''Pag-Ibig Sa Nayon''),
     (''Pasong Putik'', ''Pasong Putik Proper''),
     (''Phil'' @ hy @ ''Am'', ''Phil-Am''),
     (''Quirino 2'' @ hy @ ''A'', ''Quirino 2-A''),
     (''Quirino 2'' @ hy @ ''B'', ''Quirino 2-B''),
     (''Quirino 2'' @ hy @ ''C'', ''Quirino 2-C''),
     (''Quirino 3'' @ hy @ ''A'', ''Quirino 3-A''),
     (''San Isidro Galas'', ''San Isidro''),
     (''San Martin De Porres'', ''San Martin de Porres''),
     (''Santo Nin_o'', ''Santo Ni'' @ nt @ ''o''),
     (''Siena'', ''Sienna'')]"

definition replace_value :: "(string \<times> string) list \<Rightarrow> cell \<Rightarrow> cell" where
  \<comment> \<open>\<open>replace\<close> with a dict: a cell equal to a key becomes the key's value.\<close>
  "replace_value table c =
     (case c of
        Str s \<Rightarrow> (case map_of table s of Some t \<Rightarrow> Str t | None \<Rightarrow> c)
      | _ \<Rightarrow> c)"

definition df_replace :: "dataframe \<Rightarrow> string \<Rightarrow> (string \<times> string) list \<Rightarrow> dataframe" where
  \<comment> \<open>\<open>df.replace({name: table})\<close>: only cells under the label \<open>name\<close> are touched.\<close>
  "df_replace df name table =
     df\<lparr>rows := map (\<lambda>r. map (\<lambda>(c, v). if c = Str name then replace_value table v else v)
                              (zip (columns df) r)) (rows df)\<rparr>"

definition to_numeric_value :: "(string \<Rightarrow> int option) \<Rightarrow> cell \<Rightarrow> error + cell" where
  \<comment> \<open>\<open>parse\<close> is pandas' reading of a string as a number; \<open>errors='raise'\<close> is the default.\<close>
  "to_numeric_value parse c =
     (case c of
        Str s \<Rightarrow> (case parse s of None \<Rightarrow> Inl ValueError | Some n \<Rightarrow> Inr (Num n))
      | _ \<Rightarrow> Inr c)"

fun to_numeric :: "(string \<Rightarrow> int option) \<Rightarrow> cell list \<Rightarrow> error + cell list" where
  "to_numeric parse [] = Inr []"
| "to_numeric parse (c # cs) =
     (case to_numeric_value parse c of
        Inl e \<Rightarrow> Inl e
      | Inr v \<Rightarrow> (case to_numeric parse cs of Inl e \<Rightarrow> Inl e | Inr vs \<Rightarrow> Inr (v # vs)))"

definition fillna :: "int \<Rightarrow> cell \<Rightarrow> cell" where
  "fillna n c = (case c of NaN \<Rightarrow> Num n | _ \<Rightarrow> c)"

definition coerce_feature :: "(string \<Rightarrow> int option) \<Rightarrow> dataframe \<Rightarrow> string \<Rightarrow> error + dataframe" where
  \<comment> \<open>Body of the loop over the count columns.  A label that is absent is a KeyError; one
      that repeats selects a frame, which \<open>pd.to_numeric\<close> rejects with a TypeError.\<close>
  "coerce_feature parse covid_data feature =
     (case label_positions (columns covid_data) feature of
        [] \<Rightarrow> Inl KeyError
      | [i] \<Rightarrow>
          (case to_numeric parse (get_column covid_data i) of
             Inl e \<Rightarrow> Inl e
           | Inr values \<Rightarrow>
               (let covid_data = set_column covid_data i values
                in Inr (set_column covid_data i (map (fillna 0) (get_column covid_data i)))))
      | _ \<Rightarrow> Inl TypeError)"

fun coerce_features :: "(string \<Rightarrow> int option) \<Rightarrow> dataframe \<Rightarrow> string list \<Rightarrow> error + dataframe" where
  "coerce_features parse covid_data [] = Inr covid_data"
| "coerce_features parse covid_data (feature # features) =
     (case coerce_feature parse covid_data feature of
        Inl e \<Rightarrow> Inl e
      | Inr covid_data' \<Rightarrow> coerce_features parse covid_data' features)"

text \<open>
  A feature of the boundary file, with the attributes the code reads.  The geometry is
  left abstract, and so is the coordinate list of its representative point.
\<close>

record 'g boundary =
  REGION :: cell
  NAME_2 :: cell
  NAME_3 :: cell
  geometry :: 'g

record ('g, 'c) qc_row =
  feature :: "'g boundary"
  coords :: 'c
  Barangay :: cell

record ('g, 'c) joined =
  left_row :: "('g, 'c) qc_row"
  Active :: cell
  Died :: cell
  Recovered :: cell
  Total :: cell

definition read_file :: "(string \<Rightarrow> 'g boundary list option) \<Rightarrow> string \<Rightarrow> error + 'g boundary list" where
  "read_file shapefiles location =
     (case shapefiles location of None \<Rightarrow> Inl DriverError | Some map_df \<Rightarrow> Inr map_df)"

fun first_coords :: "'c list list \<Rightarrow> error + 'c list" where
  \<comment> \<open>\<open>[coords[0] for coords in qc_df['coords']]\<close>\<close>
  "first_coords [] = Inr []"
| "first_coords (cs # rest) =
     (case cs of
        [] \<Rightarrow> Inl IndexError
      | c # _ \<Rightarrow> (case first_coords rest of Inl e \<Rightarrow> Inl e | Inr out \<Rightarrow> Inr (c # out)))"

definition column_value :: "dataframe \<Rightarrow> cell list \<Rightarrow> string \<Rightarrow> cell" where
  "column_value df r name = (case label_positions (columns df) name of [i] \<Rightarrow> cell_at r i | _ \<Rightarrow> NaN)"

definition join_row :: "dataframe \<Rightarrow> ('g, 'c) qc_row \<Rightarrow> cell list option \<Rightarrow> ('g, 'c) joined" where
  \<comment> \<open>One row of the merge: the boundary row with the counts of the matching case row, or
      with missing counts when there is none.\<close>
  "join_row covid_data b m =
     (case m of
        None \<Rightarrow> \<lparr>left_row = b, Active = NaN, Died = NaN, Recovered = NaN, Total = NaN\<rparr>
      | Some r \<Rightarrow> \<lparr>left_row = b,
                   Active = column_value covid_data r ''Active'',
                   Died = column_value covid_data r ''Died'',
                   Recovered = column_value covid_data r ''Recovered'',
                   Total = column_value covid_data r ''Total''\<rparr>)"

definition matches :: "dataframe \<Rightarrow> nat \<Rightarrow> cell \<Rightarrow> cell list list" where
  "matches covid_data k name = filter (\<lambda>r. cell_at r k = name) (rows covid_data)"

definition merge_left :: "('g, 'c) qc_row list \<Rightarrow> dataframe \<Rightarrow> error + ('g, 'c) joined list" where
  \<comment> \<open>\<open>qc_df.merge(covid_data, how='left', on='Barangay')\<close>: the rows of \<open>qc_df\<close> in
      order, each once per matching case row, or once with missing counts.\<close>
  "merge_left qc_df covid_data =
     (case label_positions (columns covid_data) ''Barangay'' of
        [] \<Rightarrow> Inl KeyError
      | [k] \<Rightarrow>
          Inr (concat (map (\<lambda>b. case matches covid_data k (Barangay b) of
                                   [] \<Rightarrow> [join_row covid_data b None]
                                 | ms \<Rightarrow> map (\<lambda>r. join_row covid_data b (Some r)) ms) qc_df))
      | _ \<Rightarrow> Inl ValueError)"

definition qc_filter :: "'g boundary list \<Rightarrow> 'g boundary list" where
  "qc_filter map_df =
     filter (\<lambda>f. REGION f = Str ''Metropolitan Manila'' \<and> NAME_2 f = Str ''Quezon City'') map_df"

definition preprocess ::
  "(string \<Rightarrow> int option) \<Rightarrow> ('g \<Rightarrow> 'c list) \<Rightarrow> (string \<Rightarrow> 'g boundary list option)
     \<Rightarrow> dataframe \<Rightarrow> string \<Rightarrow> error + ('g, 'c) joined list" where
  "preprocess parse representative_point shapefiles covid_data shapefiles_location =
     (let covid_data = df_replace covid_data ''Barangay'' rep
      in case coerce_features parse covid_data [''Active'', ''Died'', ''Recovered'', ''Total''] of
           Inl e \<Rightarrow> Inl e
         | Inr covid_data \<Rightarrow>
             (case read_file shapefiles shapefiles_location of
                Inl e \<Rightarrow> Inl e
              | Inr map_df \<Rightarrow>
                  (let qc_df = qc_filter map_df
                   in case first_coords (map (\<lambda>f. representative_point (geometry f)) qc_df) of
                        Inl e \<Rightarrow> Inl e
                      | Inr cs \<Rightarrow>
                          (let qc_df = map (\<lambda>(f, c). \<lparr>feature = f, coords = c, Barangay = NAME_3 f\<rparr>)
                                           (zip qc_df cs);
                               qc_df = map (\<lambda>q. q\<lparr>Barangay :=
                                             replace_value [(''Constitution Hills'', ''Commonwealth'')]
                                               (Barangay q)\<rparr>) qc_df
                           in merge_left qc_df covid_data))))"

section \<open>Batch driver: \<open>batch_process\<close>\<close>

text \<open>
  \<open>create_map\<close> draws and saves the figure; it is taken as a function from the joined
  records and the file name to an error or to what it saved.
\<close>

definition process_file ::
  "(string \<Rightarrow> int option) \<Rightarrow> ('g \<Rightarrow> 'c list) \<Rightarrow> (string \<Rightarrow> 'g boundary list option)
     \<Rightarrow> (string \<Rightarrow> dataframe list option) \<Rightarrow> (('g, 'c) joined list \<Rightarrow> string \<Rightarrow> error + 'o)
     \<Rightarrow> string \<Rightarrow> string \<Rightarrow> error + 'o" where
  \<comment> \<open>The three calls inside the \<open>try\<close>.\<close>
  "process_file parse representative_point shapefiles pdfs create_map shapefiles_location file =
     (case extract_table pdfs file of
        Inl e \<Rightarrow> Inl e
      | Inr downloaded_data_df \<Rightarrow>
          (case preprocess parse representative_point shapefiles downloaded_data_df
                  shapefiles_location of
             Inl e \<Rightarrow> Inl e
           | Inr preprocessed_data \<Rightarrow> create_map preprocessed_data file))"

fun process_days :: "(string \<Rightarrow> error + 'o) \<Rightarrow> string \<Rightarrow> string \<Rightarrow> int list \<Rightarrow> 'o list \<times> error option" where
  \<comment> \<open>The inner loop: a FileNotFoundError skips the day, any other error ends the run.\<close>
  "process_days process data_dir month [] = ([], None)"
| "process_days process data_dir month (day # days) =
     (case process (downloaded_file data_dir month day) of
        Inl e \<Rightarrow>
          if e = FileNotFoundError then process_days process data_dir month days
          else ([], Some e)
      | Inr out \<Rightarrow>
          (case process_days process data_dir month days of (outs, r) \<Rightarrow> (out # outs, r)))"

fun process_ranges :: "(string \<Rightarrow> error + 'o) \<Rightarrow> string \<Rightarrow> (string \<times> int) list \<Rightarrow> 'o list \<times> error option" where
  "process_ranges process data_dir [] = ([], None)"
| "process_ranges process data_dir (date_range # dt) =
     (case process_days process data_dir (fst date_range) [1..snd date_range] of
        (outs, Some e) \<Rightarrow> (outs, Some e)
      | (outs, None) \<Rightarrow>
          (case process_ranges process data_dir dt of (outs', r) \<Rightarrow> (outs @ outs', r)))"

definition batch_process ::
  "(string \<Rightarrow> int option) \<Rightarrow> ('g \<Rightarrow> 'c list) \<Rightarrow> (string \<Rightarrow> 'g boundary list option)
     \<Rightarrow> (string \<Rightarrow> dataframe list option) \<Rightarrow> (('g, 'c) joined list \<Rightarrow> string \<Rightarrow> error + 'o)
     \<Rightarrow> (string \<times> int) list \<Rightarrow> string \<Rightarrow> string \<Rightarrow> 'o list \<times> error option" where
  "batch_process parse representative_point shapefiles pdfs create_map dt data_dir
       shapefiles_location =
     process_ranges
       (process_file parse representative_point shapefiles pdfs create_map shapefiles_location)
       data_dir dt"

subsection \<open>A concrete reader of numbers\<close>

text \<open>
  For the examples: decimal digit strings are read as numbers and nothing else is, which
  agrees with pandas on the tokens the examples use.
\<close>

definition is_digit :: "char \<Rightarrow> bool" where
  "is_digit c = (c \<in> set ''0123456789'')"

definition parse_decimal :: "string \<Rightarrow> int option" where
  "parse_decimal s =
     (if s = [] \<or> \<not> list_all is_digit s then None
      else Some (fold (\<lambda>c n. 10 * n + (int (of_char c) - 48)) s 0))"

section \<open>Notions used in the statements and examples\<close>


definition example_server :: "string \<Rightarrow> nat \<times> string" where
  \<comment> \<open>A server that has the report of 1 January 2021 only.\<close>
  "example_server url =
     (if url = ''https://quezoncity.gov.ph/wp-content/uploads/2021/01/January-01-2021-Cases.pdf''
      then (200, ''%PDF-1.4'') else (404, []))"








definition two_page_tables :: "dataframe list" where
  \<comment> \<open>A report of two pages, each with the header row and a row of totals.\<close>
  "two_page_tables =
     [\<lparr>columns = [Str ''Unnamed: 0'', Str ''Unnamed: 1''],
       rows = [[Str ''Barangay'', Str ''Active''], [Str ''Alicia'', Str ''3''],
               [Str ''Amihan'', Str ''5''], [Str ''Total'', Str ''8'']]\<rparr>,
      \<lparr>columns = [Str ''Unnamed: 0'', Str ''Unnamed: 1''],
       rows = [[Str ''Barangay'', Str ''Active''], [Str ''Apolonio Samson'', Str ''7''],
               [Str ''Total'', Str ''7'']]\<rparr>]"

definition two_page_pdf :: "string \<Rightarrow> dataframe list option" where
  "two_page_pdf file = (if file = ''a.pdf'' then Some two_page_tables else None)"

definition count_features :: "string list" where
  "count_features = [''Active'', ''Died'', ''Recovered'', ''Total'']"

definition case_frame :: "dataframe \<Rightarrow> bool" where
  \<comment> \<open>A frame of case records: the name and the four counts each label exactly one
      column, and every row has a cell for every column.\<close>
  "case_frame df =
     (list_all (\<lambda>name. length (label_positions (columns df) name) = 1)
        (''Barangay'' # count_features) \<and>
      list_all (\<lambda>r. length r = length (columns df)) (rows df))"

definition numeric :: "(string \<Rightarrow> int option) \<Rightarrow> cell \<Rightarrow> cell" where
  "numeric parse c = (case c of Str s \<Rightarrow> (case parse s of Some n \<Rightarrow> Num n | None \<Rightarrow> c) | _ \<Rightarrow> c)"

definition coercible :: "(string \<Rightarrow> int option) \<Rightarrow> cell \<Rightarrow> bool" where
  "coercible parse c = (case c of Str s \<Rightarrow> parse s \<noteq> None | _ \<Rightarrow> True)"

definition coerce_cell :: "(string \<Rightarrow> int option) \<Rightarrow> nat \<Rightarrow> cell list \<Rightarrow> cell list" where
  "coerce_cell parse p r = r[p := fillna 0 (numeric parse (cell_at r p))]"

definition case_name :: "dataframe \<Rightarrow> cell list \<Rightarrow> cell" where
  \<comment> \<open>The subdivision name of a case row after the alias table has been applied.\<close>
  "case_name df r = replace_value rep (column_value df r ''Barangay'')"

definition case_count :: "(string \<Rightarrow> int option) \<Rightarrow> dataframe \<Rightarrow> cell list \<Rightarrow> string \<Rightarrow> cell" where
  \<comment> \<open>A count of a case row after the coercion to numbers and the filling of missing cells.\<close>
  "case_count parse df r name = fillna 0 (numeric parse (column_value df r name))"

definition coercible_frame :: "(string \<Rightarrow> int option) \<Rightarrow> dataframe \<Rightarrow> bool" where
  "coercible_frame parse df =
     list_all (\<lambda>r. list_all (\<lambda>name. coercible parse (column_value df r name)) count_features)
       (rows df)"

definition qc_rows :: "('g \<Rightarrow> 'c list) \<Rightarrow> 'g boundary list \<Rightarrow> ('g, 'c) qc_row list" where
  \<comment> \<open>The boundary rows the merge starts from, when every representative point has
      coordinates.\<close>
  "qc_rows representative_point map_df =
     map (\<lambda>f. \<lparr>feature = f, coords = hd (representative_point (geometry f)),
               Barangay = replace_value [(''Constitution Hills'', ''Commonwealth'')] (NAME_3 f)\<rparr>)
       (qc_filter map_df)"

definition unmatched_row :: "('g, 'c) qc_row \<Rightarrow> ('g, 'c) joined" where
  "unmatched_row q = \<lparr>left_row = q, Active = NaN, Died = NaN, Recovered = NaN, Total = NaN\<rparr>"

definition matched_row ::
  "(string \<Rightarrow> int option) \<Rightarrow> dataframe \<Rightarrow> ('g, 'c) qc_row \<Rightarrow> cell list \<Rightarrow> ('g, 'c) joined" where
  "matched_row parse df q r =
     \<lparr>left_row = q, Active = case_count parse df r ''Active'',
      Died = case_count parse df r ''Died'',
      Recovered = case_count parse df r ''Recovered'',
      Total = case_count parse df r ''Total''\<rparr>"

definition case_rows_of :: "dataframe \<Rightarrow> cell \<Rightarrow> cell list list" where
  \<comment> \<open>The case rows whose name, after the alias table, is the given one.\<close>
  "case_rows_of df name = filter (\<lambda>r. case_name df r = name) (rows df)"

definition joined_rows ::
  "(string \<Rightarrow> int option) \<Rightarrow> dataframe \<Rightarrow> ('g, 'c) qc_row \<Rightarrow> ('g, 'c) joined list" where
  "joined_rows parse df q =
     (if case_rows_of df (Barangay q) = [] then [unmatched_row q]
      else map (matched_row parse df q) (case_rows_of df (Barangay q)))"

section \<open>Decimal rendering: basic facts\<close>

lemma digit_inj: "a < 10 \<Longrightarrow> b < 10 \<Longrightarrow> digit a = digit b \<Longrightarrow> a = b"
proof -
  assume a: "a < 10" and b: "b < 10" and e: "digit a = digit b"
  have "\<forall>x \<in> set [0..<10]. \<forall>y \<in> set [0..<10]. digit x = digit y \<longrightarrow> x = y"
    by (simp add: digit_def upt_conv_Cons)
  with a b e show ?thesis by simp
qed

lemma str_nat_nonempty: "str_nat n \<noteq> []"
  by (subst str_nat.simps) simp

lemma str_nat_small: "n < 10 \<Longrightarrow> str_nat n = [digit n]"
  by (subst str_nat.simps) simp

lemma str_nat_big: "\<not> n < 10 \<Longrightarrow> str_nat n = str_nat (n div 10) @ [digit (n mod 10)]"
  by (subst str_nat.simps) simp

lemma str_nat_inj: "str_nat a = str_nat b \<Longrightarrow> a = b"
proof (induction a arbitrary: b rule: str_nat.induct)
  case (1 n)
  show ?case
  proof (cases "n < 10")
    case True
    note n = this
    show ?thesis
    proof (cases "b < 10")
      case True
      with n "1.prems" show ?thesis by (simp add: str_nat_small digit_inj)
    next
      case False
      with n "1.prems" have "[digit n] = str_nat (b div 10) @ [digit (b mod 10)]"
        by (simp add: str_nat_small str_nat_big)
      then show ?thesis using str_nat_nonempty [of "b div 10"] by simp
    qed
  next
    case False
    note n = this
    show ?thesis
    proof (cases "b < 10")
      case True
      with n "1.prems" have "str_nat (n div 10) @ [digit (n mod 10)] = [digit b]"
        by (simp add: str_nat_small str_nat_big)
      then show ?thesis using str_nat_nonempty [of "n div 10"] by simp
    next
      case False
      with n "1.prems" have e: "str_nat (n div 10) @ [digit (n mod 10)] =
          str_nat (b div 10) @ [digit (b mod 10)]"
        by (simp add: str_nat_big)
      then have "str_nat (n div 10) = str_nat (b div 10)" and d: "digit (n mod 10) = digit (b mod 10)"
        by simp_all
      with "1.IH" n have q: "n div 10 = b div 10" by blast
      from d have r: "n mod 10 = b mod 10" by (intro digit_inj) simp_all
      from q r show ?thesis by (metis div_mult_mod_eq)
    qed
  qed
qed

lemma length_str_nat_small: "n < 10 \<Longrightarrow> length (str_nat n) = 1"
  by (simp add: str_nat_small)

lemma length_str_nat_2: "10 \<le> n \<Longrightarrow> n < 100 \<Longrightarrow> length (str_nat n) = 2"
  by (simp add: str_nat_big str_nat_small)

lemma length_str_nat_3: "100 \<le> n \<Longrightarrow> n < 1000 \<Longrightarrow> length (str_nat n) = 3"
  by (simp add: str_nat_big [of n] length_str_nat_2)

lemma length_str_nat_4: "1000 \<le> n \<Longrightarrow> n < 10000 \<Longrightarrow> length (str_nat n) = 4"
  by (simp add: str_nat_big [of n] length_str_nat_3)

lemma str_nat_2021: "str_nat 2021 = ''2021''"
  by (simp add: str_nat.simps digit_def)

lemma length_str_nat_le3: "n < 1000 \<Longrightarrow> length (str_nat n) \<le> 3"
proof -
  assume n: "n < 1000"
  consider "n < 10" | "10 \<le> n" "n < 100" | "100 \<le> n" "n < 1000" using n by linarith
  then show ?thesis
    by cases (simp_all add: length_str_nat_small length_str_nat_2 length_str_nat_3)
qed

lemma zfill_Y_2021:
  assumes "1 \<le> y" "y \<le> 9999"
  shows "(zfill 4 (str_int y) = ''2021'') = (y = 2021)"
proof
  assume "y = 2021"
  then show "zfill 4 (str_int y) = ''2021''"
    by (simp add: zfill_def str_int_def str_nat_2021)
next
  assume e: "zfill 4 (str_int y) = ''2021''"
  have s: "str_int y = str_nat (nat y)" using assms by (simp add: str_int_def)
  show "y = 2021"
  proof (cases "1000 \<le> y")
    case True
    with assms have "length (str_nat (nat y)) = 4" by (intro length_str_nat_4) simp_all
    with e s have "str_nat (nat y) = str_nat 2021" by (simp add: zfill_def str_nat_2021)
    then have "nat y = 2021" by (rule str_nat_inj)
    then show ?thesis by simp
  next
    case False
    with assms have "length (str_nat (nat y)) \<le> 3" by (intro length_str_nat_le3) simp
    then obtain k where "4 - length (str_nat (nat y)) = Suc k"
      by (cases "4 - length (str_nat (nat y))") simp_all
    with e s show ?thesis by (simp add: zfill_def)
  qed
qed

lemma zfill_d:
  assumes "0 \<le> d" "d < 100"
  shows "zfill 2 (str_int d) = (if d < 10 then CHR ''0'' # str_int d else str_int d)"
proof -
  have s: "str_int d = str_nat (nat d)" using assms by (simp add: str_int_def)
  show ?thesis
  proof (cases "d < 10")
    case True
    with assms have "length (str_nat (nat d)) = 1" by (intro length_str_nat_small) simp
    with True s show ?thesis by (simp add: zfill_def)
  next
    case False
    with assms have "length (str_nat (nat d)) = 2" by (intro length_str_nat_2) simp_all
    with False s show ?thesis by (simp add: zfill_def)
  qed
qed

section \<open>File names of the driver and of the fetcher\<close>

lemma valid_day_range: "valid_date d \<Longrightarrow> 0 \<le> dday d \<and> dday d < 100"
  by (auto simp: valid_date_def days_in_month_def split: if_splits)

text \<open>
  Claim C10.  For a calendar date, the path the batch driver builds from the month name
  and the day equals the path the fetcher writes for that date, in the same directory,
  exactly when the year of the date is 2021.
\<close>

theorem driver_name_matches_fetcher_iff_2021:
  assumes "valid_date d"
  shows "(downloaded_file directory (month_name (dmonth d)) (dday d) = saved_path directory d)
           = (dyear d = 2021)"
proof -
  from assms have y: "1 \<le> dyear d" "dyear d \<le> 9999" by (simp_all add: valid_date_def)
  from assms have dd: "0 \<le> dday d" "dday d < 100" using valid_day_range by blast+
  have "(downloaded_file directory (month_name (dmonth d)) (dday d) = saved_path directory d)
        = (zfill 4 (str_int (dyear d)) = ''2021'')"
    by (simp add: downloaded_file_def saved_path_def file_name_def fmt_B_def fmt_d_def fmt_Y_def
        zfill_d [OF dd] eq_commute)
  then show ?thesis by (simp add: zfill_Y_2021 [OF y])
qed

theorem driver_name_matches_fetcher_iff_2021_witness:
  "valid_date (Date 2021 3 5) \<and>
   downloaded_file ''output'' ''March'' 5 = saved_path ''output'' (Date 2021 3 5) \<and>
   valid_date (Date 2020 12 25) \<and>
   downloaded_file ''output'' ''December'' 25 \<noteq> saved_path ''output'' (Date 2020 12 25)"
proof -
  have a: "valid_date (Date 2021 3 5)" by (simp add: valid_date_def days_in_month_def)
  have b: "valid_date (Date 2020 12 25)" by (simp add: valid_date_def days_in_month_def)
  show ?thesis
    using a b driver_name_matches_fetcher_iff_2021 [OF a, of "''output''"]
      driver_name_matches_fetcher_iff_2021 [OF b, of "''output''"]
    by (simp add: month_name_def)
qed

section \<open>Fetcher\<close>

lemma concat_iter_content: "0 < n \<Longrightarrow> concat (iter_content n body) = body"
proof (induction n body rule: iter_content.induct)
  case (1 chunk_size body)
  show ?case
  proof (cases "body = []")
    case True
    then show ?thesis by (subst iter_content.simps) simp
  next
    case False
    with 1 have "concat (iter_content chunk_size (drop chunk_size body)) = drop chunk_size body"
      by simp
    with False 1 show ?thesis by (subst iter_content.simps) simp
  qed
qed

lemma str_nat_200: "str_nat 200 = ''200''"
  by (simp add: str_nat.simps digit_def)

lemma response_ok_iff: "(str_response response = ''<Response [200]>'') = (fst response = 200)"
proof -
  have "(str_nat (fst response) = ''200'') = (fst response = 200)"
    using str_nat_inj [of "fst response" 200] by (auto simp: str_nat_200)
  then show ?thesis by (simp add: str_response_def)
qed

lemma fetch_one_cases:
  "fetch_one requests_get directory d =
     (if fst (requests_get (request_url d)) = 200
      then WriteFile (saved_path directory d) (snd (requests_get (request_url d)))
      else Print (no_data_message d))"
  by (simp add: fetch_one_def Let_def response_ok_iff concat_iter_content saved_path_def)

lemma dim_bounds: "28 \<le> days_in_month y m \<and> days_in_month y m \<le> 31"
  by (simp add: days_in_month_def)



lemma add_day_valid: "valid_date s \<Longrightarrow> add_day s = Inr s' \<Longrightarrow> valid_date s'"
  using dim_bounds [of "dyear s" "dmonth s + 1"] dim_bounds [of "dyear s + 1" 1]
  by (auto simp: valid_date_def add_day_def split: if_splits)

lemma add_day_least:
  "valid_date s \<Longrightarrow> add_day s = Inr s' \<Longrightarrow> valid_date d \<Longrightarrow> date_le s d \<Longrightarrow> d \<noteq> s
     \<Longrightarrow> date_le s' d"
  by (cases d; cases s) (auto simp: valid_date_def add_day_def date_le_def split: if_splits)

lemma add_day_greater:
  "valid_date s \<Longrightarrow> add_day s = Inr s' \<Longrightarrow> date_le s' d \<Longrightarrow> date_le s d \<and> d \<noteq> s"
  by (cases d; cases s) (auto simp: valid_date_def add_day_def date_le_def split: if_splits)

lemma add_day_overflow:
  "valid_date s \<Longrightarrow> add_day s = Inl e \<Longrightarrow> valid_date d \<Longrightarrow> date_le s d \<Longrightarrow> d = s"
  by (cases d; cases s) (auto simp: valid_date_def add_day_def date_le_def split: if_splits)



lemma download_loop_status:
  "valid_date s \<Longrightarrow> valid_date e \<Longrightarrow>
     snd (download_loop g dir s e) =
       (if date_le s e \<and> e = Date 9999 12 31 then Some OverflowError else None)"
proof (induction g dir s e rule: download_loop.induct)
  case (1 g dir s e)
  show ?case
  proof (cases "date_le s e")
    case False
    then show ?thesis by (subst download_loop.simps) simp
  next
    case True
    note le = this
    show ?thesis
    proof (cases "add_day s")
      case (Inl err)
      have "e = s" using add_day_overflow [OF "1.prems"(1) Inl "1.prems"(2) le] .
      moreover from Inl have "err = OverflowError" "s = Date 9999 12 31"
        using "1.prems"(1) dim_bounds [of "dyear s" "dmonth s"]
        by (cases s; auto simp: add_day_def valid_date_def days_in_month_def split: if_splits)+
      ultimately show ?thesis using le Inl by (subst download_loop.simps) simp
    next
      case (Inr s')
      have v': "valid_date s'" using add_day_valid [OF "1.prems"(1) Inr] .
      have "date_le s' e \<or> e = s"
        using add_day_least [OF "1.prems"(1) Inr "1.prems"(2) le] by blast
      moreover have "\<not> (date_le s' s)"
        using add_day_greater [OF "1.prems"(1) Inr, of s] by blast
      moreover have "e = s \<Longrightarrow> e \<noteq> Date 9999 12 31"
        using Inr by (auto simp: add_day_def days_in_month_def split: if_splits)
      ultimately show ?thesis
        using "1.IH" [OF le Inr v' "1.prems"(2)] le Inr
        by (subst download_loop.simps) (auto split: prod.splits)
    qed
  qed
qed


lemma download_data_example:
  "download_data example_server (2021, 1, 1) (2021, 1, 2) ''output'' =
     ([MakeDirs ''output'',
       WriteFile ''output/January-01-2021-Cases.pdf'' ''%PDF-1.4'',
       Print ''No data extracted on January 02, 2021''], None)"
  by (simp add: download_data_def datetime_date_def valid_date_def days_in_month_def is_leap_def
      download_loop.simps date_le_def add_day_def fetch_one_cases request_url_def file_name_def
      fmt_B_def fmt_d_def fmt_m_def fmt_Y_def month_name_def zfill_def str_int_def str_nat.simps
      digit_def example_server_def saved_path_def no_data_message_def)


section \<open>Table extractor\<close>







lemma extract_table_two_pages:
  "extract_table two_page_pdf ''a.pdf'' =
     Inr \<lparr>columns = [Str ''Barangay'', Str ''Active''],
          rows = [[Str ''Alicia'', Str ''3''], [Str ''Amihan'', Str ''5''],
                  [Str ''Apolonio Samson'', Str ''7'']]\<rparr>"
  by (simp add: extract_table_def read_pdf_def two_page_pdf_def two_page_tables_def
      promote_header_def pd_concat_def)



section \<open>Preprocessor: what the stages compute\<close>

lemma to_numeric_value_closed:
  "to_numeric_value parse c =
     (if coercible parse c then Inr (numeric parse c) else Inl ValueError)"
  by (cases c) (auto simp: to_numeric_value_def numeric_def coercible_def split: option.splits)

lemma to_numeric_closed:
  "to_numeric parse cs =
     (if list_all (coercible parse) cs then Inr (map (numeric parse) cs) else Inl ValueError)"
  by (induction cs) (simp_all add: to_numeric_value_closed)

lemma positions_single:
  assumes "label_positions cols name = [k]"
  shows "k < length cols" and "cols ! k = Str name"
    and "\<And>i. i < length cols \<Longrightarrow> cols ! i = Str name \<Longrightarrow> i = k"
proof -
  have s: "set (label_positions cols name) = {k}" using assms by simp
  then have "k \<in> set (label_positions cols name)" by simp
  then show "k < length cols" and "cols ! k = Str name" by (simp_all add: label_positions_def)
  fix i assume "i < length cols" "cols ! i = Str name"
  then have "i \<in> set (label_positions cols name)" by (simp add: label_positions_def)
  with s show "i = k" by simp
qed

lemma replace_row:
  assumes "label_positions cols name = [k]" and "length r = length cols"
  shows "map (\<lambda>(c, v). if c = Str name then g v else v) (zip cols r) = r[k := g (r ! k)]"
proof (rule nth_equalityI)
  show "length (map (\<lambda>(c, v). if c = Str name then g v else v) (zip cols r)) = length (r[k := g (r ! k)])"
    using assms(2) by simp
next
  fix i assume "i < length (map (\<lambda>(c, v). if c = Str name then g v else v) (zip cols r))"
  then have i: "i < length cols" "i < length r" using assms(2) by simp_all
  show "map (\<lambda>(c, v). if c = Str name then g v else v) (zip cols r) ! i = r[k := g (r ! k)] ! i"
  proof (cases "i = k")
    case True
    with i positions_single(2) [OF assms(1)] show ?thesis by simp
  next
    case False
    with i positions_single(3) [OF assms(1), of i] have "cols ! i \<noteq> Str name" by blast
    with i False show ?thesis by simp
  qed
qed

lemma df_replace_rows:
  assumes "label_positions (columns df) name = [k]"
    and "list_all (\<lambda>r. length r = length (columns df)) (rows df)"
  shows "df_replace df name table =
           df\<lparr>rows := map (\<lambda>r. r[k := replace_value table (r ! k)]) (rows df)\<rparr>"
proof -
  have "map (\<lambda>r. map (\<lambda>(c, v). if c = Str name then replace_value table v else v)
                    (zip (columns df) r)) (rows df)
        = map (\<lambda>r. r[k := replace_value table (r ! k)]) (rows df)"
  proof (rule map_cong [OF refl])
    fix r assume "r \<in> set (rows df)"
    with assms(2) have "length r = length (columns df)" by (simp add: list_all_iff)
    with assms(1) show "map (\<lambda>(c, v). if c = Str name then replace_value table v else v)
        (zip (columns df) r) = r[k := replace_value table (r ! k)]"
      by (rule replace_row)
  qed
  then show ?thesis by (simp add: df_replace_def)
qed

lemma map2_maps: "map2 h (map f xs) (map g xs) = map (\<lambda>x. h (f x) (g x)) xs"
  by (induction xs) simp_all

lemma map_zip_self: "map (\<lambda>(r, v). h r v) (zip xs (map f xs)) = map (\<lambda>r. h r (f r)) xs"
  by (induction xs) simp_all

lemma numeric_NaN: "numeric parse NaN = NaN"
  by (simp add: numeric_def)

lemma coerce_row: "r[p := f (cell_at (r[p := v]) p)] = r[p := f v]"
  by (cases "p < length r") (simp_all add: cell_at_def list_update_beyond)

lemma coerce_feature_closed:
  assumes "label_positions (columns df) name = [p]"
  shows "coerce_feature parse df name =
           (if list_all (coercible parse) (get_column df p)
            then Inr (df\<lparr>rows := map (\<lambda>r. r[p := fillna 0 (numeric parse (cell_at r p))]) (rows df)\<rparr>)
            else Inl ValueError)"
proof (cases "list_all (coercible parse) (get_column df p)")
  case False
  with assms show ?thesis by (simp add: coerce_feature_def to_numeric_closed)
next
  case True
  let ?df1 = "set_column df p (map (numeric parse) (get_column df p))"
  have r1: "rows ?df1 = map (\<lambda>r. r[p := numeric parse (cell_at r p)]) (rows df)"
    by (simp add: set_column_def get_column_def map_zip_self comp_def)
  have "set_column ?df1 p (map (fillna 0) (get_column ?df1 p))
          = df\<lparr>rows := map (\<lambda>r. r[p := fillna 0 (numeric parse (cell_at r p))]) (rows df)\<rparr>"
    unfolding set_column_def [of ?df1] get_column_def [of ?df1] r1
    by (simp add: map2_maps comp_def coerce_row set_column_def)
  with True assms show ?thesis by (simp add: coerce_feature_def to_numeric_closed Let_def)
qed

lemma coerce_feature_rows:
  assumes "label_positions (columns df) name = [p]"
  shows "coerce_feature parse df name =
           (if list_all (\<lambda>r. coercible parse (cell_at r p)) (rows df)
            then Inr (df\<lparr>rows := map (coerce_cell parse p) (rows df)\<rparr>)
            else Inl ValueError)"
proof -
  have "list_all (coercible parse) (get_column df p)
          = list_all (\<lambda>r. coercible parse (cell_at r p)) (rows df)"
    by (simp add: get_column_def list.pred_map comp_def)
  moreover have "map (\<lambda>r. r[p := fillna 0 (numeric parse (cell_at r p))]) (rows df)
          = map (coerce_cell parse p) (rows df)"
    by (simp add: coerce_cell_def)
  ultimately show ?thesis using coerce_feature_closed [OF assms, of parse] by simp
qed

lemma cell_at_coerce_other: "p \<noteq> q \<Longrightarrow> cell_at (coerce_cell parse p r) q = cell_at r q"
  by (simp add: coerce_cell_def cell_at_def)

lemma cell_at_coerce_same:
  "p < length r \<Longrightarrow> cell_at (coerce_cell parse p r) p = fillna 0 (numeric parse (cell_at r p))"
  by (simp add: coerce_cell_def cell_at_def)

lemma length_coerce_cell: "length (coerce_cell parse p r) = length r"
  by (simp add: coerce_cell_def)

lemma coerce_features_closed:
  assumes a: "label_positions (columns df) ''Active'' = [a]"
    and d: "label_positions (columns df) ''Died'' = [d]"
    and r: "label_positions (columns df) ''Recovered'' = [c]"
    and t: "label_positions (columns df) ''Total'' = [t]"
  shows "coerce_features parse df [''Active'', ''Died'', ''Recovered'', ''Total''] =
           (if list_all (\<lambda>r. coercible parse (cell_at r a) \<and> coercible parse (cell_at r d) \<and>
                             coercible parse (cell_at r c) \<and> coercible parse (cell_at r t)) (rows df)
            then Inr (df\<lparr>rows := map (\<lambda>r. coerce_cell parse t (coerce_cell parse c
                                  (coerce_cell parse d (coerce_cell parse a r)))) (rows df)\<rparr>)
            else Inl ValueError)"
proof -
  have ne: "a \<noteq> d" "a \<noteq> c" "a \<noteq> t" "d \<noteq> c" "d \<noteq> t" "c \<noteq> t"
    using positions_single(2) [OF a] positions_single(2) [OF d]
      positions_single(2) [OF r] positions_single(2) [OF t] by auto
  let ?A = "\<lambda>r. coercible parse (cell_at r a)"
  let ?D = "\<lambda>r. coercible parse (cell_at r d)"
  let ?C = "\<lambda>r. coercible parse (cell_at r c)"
  let ?T = "\<lambda>r. coercible parse (cell_at r t)"
  define df1 where "df1 = df\<lparr>rows := map (coerce_cell parse a) (rows df)\<rparr>"
  define df2 where "df2 = df1\<lparr>rows := map (coerce_cell parse d) (rows df1)\<rparr>"
  define df3 where "df3 = df2\<lparr>rows := map (coerce_cell parse c) (rows df2)\<rparr>"
  define df4 where "df4 = df3\<lparr>rows := map (coerce_cell parse t) (rows df3)\<rparr>"
  have s1: "coerce_feature parse df ''Active'' =
      (if list_all ?A (rows df) then Inr df1 else Inl ValueError)"
    using coerce_feature_rows [OF a] by (simp add: df1_def)
  have d1: "label_positions (columns df1) ''Died'' = [d]" using d by (simp add: df1_def)
  have s2: "coerce_feature parse df1 ''Died'' =
      (if list_all ?D (rows df) then Inr df2 else Inl ValueError)"
    using coerce_feature_rows [OF d1, of parse] ne
    by (simp add: df1_def df2_def list.pred_map comp_def cell_at_coerce_other)
  have r2: "label_positions (columns df2) ''Recovered'' = [c]"
    using r by (simp add: df1_def df2_def)
  have s3: "coerce_feature parse df2 ''Recovered'' =
      (if list_all ?C (rows df) then Inr df3 else Inl ValueError)"
    using coerce_feature_rows [OF r2, of parse] ne
    by (simp add: df1_def df2_def df3_def list.pred_map comp_def cell_at_coerce_other)
  have t3: "label_positions (columns df3) ''Total'' = [t]"
    using t by (simp add: df1_def df2_def df3_def)
  have s4: "coerce_feature parse df3 ''Total'' =
      (if list_all ?T (rows df) then Inr df4 else Inl ValueError)"
    using coerce_feature_rows [OF t3, of parse] ne
    by (simp add: df1_def df2_def df3_def df4_def list.pred_map comp_def cell_at_coerce_other)
  have all: "list_all (\<lambda>r. ?A r \<and> ?D r \<and> ?C r \<and> ?T r) (rows df)
      = (list_all ?A (rows df) \<and> list_all ?D (rows df) \<and> list_all ?C (rows df) \<and>
         list_all ?T (rows df))"
    by (auto simp: list_all_iff)
  have fin: "df4 = df\<lparr>rows := map (\<lambda>r. coerce_cell parse t (coerce_cell parse c
                                  (coerce_cell parse d (coerce_cell parse a r)))) (rows df)\<rparr>"
    by (simp add: df1_def df2_def df3_def df4_def comp_def)
  have "coerce_features parse df [''Active'', ''Died'', ''Recovered'', ''Total''] =
      (if list_all ?A (rows df) \<and> list_all ?D (rows df) \<and> list_all ?C (rows df) \<and>
          list_all ?T (rows df) then Inr df4 else Inl ValueError)"
    by (simp add: s1 s2 s3 s4)
  then show ?thesis unfolding all fin .
qed

lemma first_coords_ok:
  "list_all (\<lambda>cs. cs \<noteq> []) css \<Longrightarrow> first_coords css = Inr (map hd css)"
  by (induction css) (auto split: list.splits)

lemma map_zip_graph: "map h (zip xs (map g xs)) = map (\<lambda>x. h (x, g x)) xs"
  by (induction xs) simp_all

lemma single_position:
  "length (label_positions cols name) = Suc 0 \<Longrightarrow> \<exists>p. label_positions cols name = [p]"
  by (cases "label_positions cols name") simp_all

lemma column_value_at:
  "label_positions (columns df) name = [p] \<Longrightarrow> column_value df r name = cell_at r p"
  by (simp add: column_value_def)

lemma case_of_map:
  "(case map f xs of [] \<Rightarrow> a | y # ys \<Rightarrow> g (y # ys)) = (if xs = [] then a else g (map f xs))"
  by (cases xs) simp_all

lemma preprocess_char:
  assumes cf: "case_frame df"
    and co: "coercible_frame parse df"
    and shp: "shapefiles location = Some map_df"
    and pts: "list_all (\<lambda>f. (representative_point :: 'g \<Rightarrow> 'c list) (geometry f) \<noteq> [])
                (qc_filter map_df)"
  shows "preprocess parse representative_point shapefiles df location
           = Inr (concat (map (joined_rows parse df) (qc_rows representative_point map_df)))"
proof -
  from cf have l: "length (label_positions (columns df) ''Barangay'') = Suc 0"
    "length (label_positions (columns df) ''Active'') = Suc 0"
    "length (label_positions (columns df) ''Died'') = Suc 0"
    "length (label_positions (columns df) ''Recovered'') = Suc 0"
    "length (label_positions (columns df) ''Total'') = Suc 0"
    by (simp_all add: case_frame_def count_features_def)
  obtain k where k: "label_positions (columns df) ''Barangay'' = [k]"
    using single_position [OF l(1)] by blast
  obtain a where a: "label_positions (columns df) ''Active'' = [a]"
    using single_position [OF l(2)] by blast
  obtain d where d: "label_positions (columns df) ''Died'' = [d]"
    using single_position [OF l(3)] by blast
  obtain c where c: "label_positions (columns df) ''Recovered'' = [c]"
    using single_position [OF l(4)] by blast
  obtain t where t: "label_positions (columns df) ''Total'' = [t]"
    using single_position [OF l(5)] by blast
  from cf have wf: "list_all (\<lambda>r. length r = length (columns df)) (rows df)"
    by (simp add: case_frame_def)
  have ne: "k \<noteq> a" "k \<noteq> d" "k \<noteq> c" "k \<noteq> t" "a \<noteq> d" "a \<noteq> c" "a \<noteq> t" "d \<noteq> c" "d \<noteq> t" "c \<noteq> t"
    using positions_single(2) [OF k] positions_single(2) [OF a] positions_single(2) [OF d]
      positions_single(2) [OF c] positions_single(2) [OF t] by auto
  have lt: "k < length (columns df)" "a < length (columns df)" "d < length (columns df)"
    "c < length (columns df)" "t < length (columns df)"
    using positions_single(1) [OF k] positions_single(1) [OF a] positions_single(1) [OF d]
      positions_single(1) [OF c] positions_single(1) [OF t] by auto
  define R where "R = (\<lambda>r. r[k := replace_value rep (r ! k)])"
  define U where "U = (\<lambda>r. coerce_cell parse t (coerce_cell parse c
                        (coerce_cell parse d (coerce_cell parse a (R r)))))"
  define df1 where "df1 = df\<lparr>rows := map R (rows df)\<rparr>"
  define df2 where "df2 = df\<lparr>rows := map U (rows df)\<rparr>"
  have rep1: "df_replace df ''Barangay'' rep = df1"
    using df_replace_rows [OF k wf] by (simp add: df1_def R_def)
  have cols1: "columns df1 = columns df" by (simp add: df1_def)
  have cols2: "columns df2 = columns df" by (simp add: df2_def)
  have inR: "\<And>r p. p \<noteq> k \<Longrightarrow> cell_at (R r) p = cell_at r p"
    by (simp add: R_def cell_at_def)
  have cond: "list_all (\<lambda>r. coercible parse (cell_at r a) \<and> coercible parse (cell_at r d) \<and>
                             coercible parse (cell_at r c) \<and> coercible parse (cell_at r t)) (rows df1)"
    using co ne
    by (simp add: df1_def list.pred_map comp_def inR coercible_frame_def count_features_def
        column_value_at [OF a] column_value_at [OF d] column_value_at [OF c] column_value_at [OF t])
  have co2: "coerce_features parse df1 [''Active'', ''Died'', ''Recovered'', ''Total''] = Inr df2"
    using coerce_features_closed [of df1 a d c t parse] a d c t cond
    by (simp add: cols1) (simp add: df1_def df2_def U_def comp_def)
  have name_U: "\<And>r. r \<in> set (rows df) \<Longrightarrow> cell_at (U r) k = case_name df r"
  proof -
    fix r assume "r \<in> set (rows df)"
    with wf lt have "k < length r" by (simp add: list_all_iff)
    then show "cell_at (U r) k = case_name df r"
      using ne by (simp add: U_def cell_at_coerce_other case_name_def column_value_at [OF k])
        (simp add: R_def cell_at_def)
  qed
  have cnt_U: "\<And>r. r \<in> set (rows df) \<Longrightarrow>
      cell_at (U r) a = case_count parse df r ''Active'' \<and>
      cell_at (U r) d = case_count parse df r ''Died'' \<and>
      cell_at (U r) c = case_count parse df r ''Recovered'' \<and>
      cell_at (U r) t = case_count parse df r ''Total''"
  proof -
    fix r assume "r \<in> set (rows df)"
    with wf lt have l: "a < length r" "d < length r" "c < length r" "t < length r"
      by (simp_all add: list_all_iff)
    have lR: "length (R r) = length r" by (simp add: R_def)
    show "cell_at (U r) a = case_count parse df r ''Active'' \<and>
      cell_at (U r) d = case_count parse df r ''Died'' \<and>
      cell_at (U r) c = case_count parse df r ''Recovered'' \<and>
      cell_at (U r) t = case_count parse df r ''Total''"
      using ne l
      by (simp add: U_def cell_at_coerce_other cell_at_coerce_same length_coerce_cell lR inR
          case_count_def column_value_at [OF a] column_value_at [OF d] column_value_at [OF c]
          column_value_at [OF t])
  qed
  have k2: "label_positions (columns df2) ''Barangay'' = [k]" using k by (simp add: cols2)
  have m: "\<And>name. matches df2 k name = map U (case_rows_of df name)"
  proof -
    fix name
    have "filter (\<lambda>r. cell_at (U r) k = name) (rows df) = filter (\<lambda>r. case_name df r = name) (rows df)"
      by (rule filter_cong [OF refl]) (simp add: name_U)
    then show "matches df2 k name = map U (case_rows_of df name)"
      by (simp add: matches_def df2_def filter_map comp_def case_rows_of_def)
  qed
  have j: "\<And>q r. r \<in> set (rows df) \<Longrightarrow> join_row df2 q (Some (U r)) = matched_row parse df q r"
    using cnt_U
    by (simp add: join_row_def matched_row_def column_value_def cols2 a d c t)
  have jr: "\<And>q :: ('g, 'c) qc_row. (case matches df2 k (Barangay q) of
                    [] \<Rightarrow> [join_row df2 q None]
                  | x # xs \<Rightarrow> map (\<lambda>r. join_row df2 q (Some r)) (x # xs))
                = joined_rows parse df q"
  proof -
    fix q :: "('g, 'c) qc_row"
    have "map (\<lambda>r. join_row df2 q (Some r)) (map U (case_rows_of df (Barangay q)))
            = map (matched_row parse df q) (case_rows_of df (Barangay q))"
      by (simp add: comp_def case_rows_of_def j cong: map_cong)
    then show "(case matches df2 k (Barangay q) of
                    [] \<Rightarrow> [join_row df2 q None]
                  | x # xs \<Rightarrow> map (\<lambda>r. join_row df2 q (Some r)) (x # xs))
                = joined_rows parse df q"
      unfolding m case_of_map
      by (simp add: joined_rows_def join_row_def unmatched_row_def)
  qed
  have mg: "\<And>qs :: ('g, 'c) qc_row list.
      merge_left qs df2 = Inr (concat (map (joined_rows parse df) qs))"
    by (simp add: merge_left_def k2 jr)
  have fc: "first_coords (map (\<lambda>f. representative_point (geometry f)) (qc_filter map_df))
      = Inr (map hd (map (\<lambda>f. representative_point (geometry f)) (qc_filter map_df)))"
    using pts by (intro first_coords_ok) (simp add: list.pred_map comp_def)
  show ?thesis
    unfolding preprocess_def Let_def rep1 co2 read_file_def shp
    by (simp add: fc map_zip_graph mg qc_rows_def comp_def)
qed

end
